theory Spec2Isabelle
  imports Main "HOL-Library.Sublist"
begin

section \<open>Farm-pickup map: the event handlers of \<^verbatim>\<open>src/main.js\<close>\<close>

text \<open>
  The script wires two user interactions to the page: a chip selection filters the cards
  and the map layer (the \<^verbatim>\<open>calciteChipGroupSelect\<close> listener), and a pointer move
  hit-tests the map and synchronises a highlight with the detail panel (the
  \<^verbatim>\<open>arcgisViewPointerMove\<close> listener). Strings are lists of characters, arrays are
  lists, and the closure variables the listeners share are fields of a state record.
\<close>

subsection \<open>JavaScript library functions used by the listeners\<close>

text \<open>
  \<^verbatim>\<open>String.prototype.replace\<close> with a string pattern: only the first occurrence of
  the pattern is replaced. With the empty pattern the replacement is put in front.
\<close>

fun replace :: "string \<Rightarrow> string \<Rightarrow> string \<Rightarrow> string" where
  "replace pat rep [] = (if pat = [] then rep else [])"
| "replace pat rep (c # cs) =
     (if prefix pat (c # cs) then rep @ drop (length pat) (c # cs)
      else c # replace pat rep cs)"

text \<open>\<^verbatim>\<open>Array.prototype.join\<close>: the elements, with the separator between neighbours.\<close>

fun join :: "string \<Rightarrow> string list \<Rightarrow> string" where
  "join sep [] = []"
| "join sep [x] = x"
| "join sep (x # y # ys) = x @ sep @ join sep (y # ys)"

text \<open>\<^verbatim>\<open>Array.prototype.includes\<close> on an array of strings.\<close>

definition array_includes :: "string list \<Rightarrow> string \<Rightarrow> bool" where
  "array_includes xs x = (x \<in> set xs)"

subsection \<open>Feature Records and the card container\<close>

text \<open>
  A Feature Record as \<^verbatim>\<open>normalizeFeatureData\<close> hands it to the listeners: the queried
  attributes and the derived list of product categories. The filter reads
  \<^verbatim>\<open>feature.products\<close> only.
\<close>

record feature_record =
  objectid :: int
  farm_name :: string
  farm_descript :: string
  location :: string
  main_products :: string
  products :: "string list"
  website :: string
  email :: string

text \<open>
  Modelled from the spec: \<^verbatim>\<open>displayCard\<close> of \<^verbatim>\<open>./list-view/list-view\<close> is not
  among the source files. The Card Renderer "projects a display record into a visual card
  appended to a container"; a card is identified with the record it shows, and the
  container with the list of its cards.
\<close>

definition displayCard :: "feature_record \<Rightarrow> feature_record list \<Rightarrow> feature_record list" where
  "displayCard feature container = container @ [feature]"

subsection \<open>The chip-selection listener\<close>

text \<open>The character \<^verbatim>\<open>'\<close> that delimits the pattern in the filter expression.\<close>

definition quote :: char where
  "quote = CHR 0x27"

record feature_filter =
  where_clause :: string

record feature_effect =
  effect_filter :: feature_filter
  includedEffect :: string
  excludedEffect :: string

text \<open>
  \<^verbatim>\<open>where: "Main_Products LIKE '%" + productFilter.join(", ") + "%'"\<close>
\<close>

definition featureFilter :: "string list \<Rightarrow> feature_filter" where
  "featureFilter productFilter =
     \<lparr>where_clause =
        ''Main_Products LIKE '' @ [quote] @ ''%'' @ join '', '' productFilter @ ''%'' @ [quote]\<rparr>"

text \<open>
  \<^verbatim>\<open>feature.products.filter((product) =>
       productFilter.includes(product.replace(" ", "_"))).length === productFilter.length\<close>
\<close>

definition isMatch :: "string list \<Rightarrow> feature_record \<Rightarrow> bool" where
  "isMatch productFilter feature =
     (length (filter (\<lambda>product. array_includes productFilter (replace '' '' ''_'' product))
                (products feature))
      = length productFilter)"

text \<open>\<^verbatim>\<open>features.forEach\<close>: the loop over the records, threading the container.\<close>

fun forEach_display :: "string list \<Rightarrow> feature_record list \<Rightarrow> feature_record list
    \<Rightarrow> feature_record list" where
  "forEach_display productFilter [] container = container"
| "forEach_display productFilter (feature # features) container =
     forEach_display productFilter features
       (if isMatch productFilter feature then displayCard feature container else container)"

record page =
  container :: "feature_record list"
  featureEffect :: "feature_effect option"

text \<open>
  The listener of \<^verbatim>\<open>calciteChipGroupSelect\<close>. Its argument is the array
  \<^verbatim>\<open>event.target.selectedItems.map((selected) => selected.value)\<close>; the container is
  emptied first (\<^verbatim>\<open>container.replaceChildren("")\<close>), the effect is assigned to the
  layer view, and the cards are rebuilt.
\<close>

definition calciteChipGroupSelect :: "string list \<Rightarrow> feature_record list \<Rightarrow> page \<Rightarrow> page" where
  "calciteChipGroupSelect productFilter features pg =
     \<lparr>container = forEach_display productFilter features [],
      featureEffect =
        Some \<lparr>effect_filter = featureFilter productFilter,
              includedEffect = ''bloom(10%)'',
              excludedEffect = ''sepia(100%) opacity(30%)''\<rparr>\<rparr>"

subsection \<open>The filter expression on the layer view\<close>

text \<open>
  The layer view evaluates the expression on each feature of the layer; the evaluator is
  the SDK's, not code of the script. The operator \<^verbatim>\<open>LIKE\<close> is that of SQL: in the
  pattern \<^verbatim>\<open>%\<close> stands for any run of characters and \<^verbatim>\<open>_\<close> for one character,
  which the SDK does not let be a line feed or a carriage return; every other character
  stands for itself. The expression has no \<^verbatim>\<open>ESCAPE\<close> clause.
\<close>

definition like_char :: "char \<Rightarrow> char \<Rightarrow> bool" where
  "like_char p c =
     (if p = CHR ''_'' then c \<noteq> CHR 0x0A \<and> c \<noteq> CHR 0x0D else p = c)"

fun sql_like :: "string \<Rightarrow> string \<Rightarrow> bool" where
  "sql_like [] s = (s = [])"
| "sql_like (p # ps) s =
     (if p = CHR ''%'' then list_ex (\<lambda>k. sql_like ps (drop k s)) [0..<Suc (length s)]
      else (case s of [] \<Rightarrow> False | c # cs \<Rightarrow> like_char p c \<and> sql_like ps cs))"

text \<open>
  The expression \<^verbatim>\<open>Main_Products LIKE '<pattern>'\<close> on a feature whose raw products
  field is \<open>raw\<close>; a feature whose field is null (\<open>None\<close>) is not matched. An
  expression of another shape, or a pattern that holds the delimiter, is outside the
  model (the result \<open>None\<close>).
\<close>

definition evaluate_where :: "string \<Rightarrow> string option \<Rightarrow> bool option" where
  "evaluate_where w raw =
     (let pre = ''Main_Products LIKE '' @ [quote];
          pat = butlast (drop (length pre) w)
      in if prefix pre w \<and> length pre < length w \<and> last w = quote \<and> quote \<notin> set pat
         then Some (case raw of None \<Rightarrow> False | Some text \<Rightarrow> sql_like pat text)
         else None)"

text \<open>
  Whether the effect that the listener has assigned to the layer view takes a feature for
  included, from the raw products field of the feature.
\<close>

definition effect_includes :: "page \<Rightarrow> string option \<Rightarrow> bool option" where
  "effect_includes pg raw =
     (case featureEffect pg of
        None \<Rightarrow> None
      | Some effect \<Rightarrow> evaluate_where (where_clause (effect_filter effect)) raw)"

subsection \<open>Hit-test results\<close>

text \<open>
  The value of an attribute of a feature, as the service returns it. A field that the
  attributes do not hold reads as \<^verbatim>\<open>undefined\<close>, which is \<open>None\<close> of the lookup.
\<close>

datatype attribute_value = AttrNull | AttrNumber int | AttrString string

datatype popup_template = PopupTemplate string

record layer =
  popupTemplate :: "popup_template option"

record graphic =
  attributes :: "(string \<times> attribute_value) list"
  layer :: layer

record hit =
  graphic :: graphic

text \<open>What \<^verbatim>\<open>if (!newId)\<close> tests: \<^verbatim>\<open>undefined\<close>, \<^verbatim>\<open>null\<close>, 0 and the empty string are falsy.\<close>

fun truthy :: "attribute_value option \<Rightarrow> bool" where
  "truthy None = False"
| "truthy (Some AttrNull) = False"
| "truthy (Some (AttrNumber n)) = (n \<noteq> 0)"
| "truthy (Some (AttrString t)) = (t \<noteq> [])"

text \<open>\<^verbatim>\<open>results[0]\<close>: \<^verbatim>\<open>undefined\<close> on the empty array.\<close>

fun at0 :: "'a list \<Rightarrow> 'a option" where
  "at0 [] = None"
| "at0 (x # xs) = Some x"

subsection \<open>The Highlight State\<close>

text \<open>
  The closure variable \<^verbatim>\<open>objectId\<close> holds \<^verbatim>\<open>undefined\<close> at first, then either the
  object \<^verbatim>\<open>defaultGraphic\<close> (by \<^verbatim>\<open>objectId = feature.graphic = defaultGraphic\<close>) or the id
  of a hit feature. The detail panel \<^verbatim>\<open>feature.graphic\<close> shows \<^verbatim>\<open>defaultGraphic\<close> or the
  graphic of a hit.
\<close>

datatype objectId_value = IdUndefined | IdDefaultGraphic | IdValue attribute_value

datatype panel_graphic = DefaultGraphic | HitGraphic graphic

text \<open>
  The closure variable \<^verbatim>\<open>highlight\<close> holds the handle that
  \<^verbatim>\<open>csaPickupsLayerView.highlight\<close> returned last. The layer view keeps the highlights
  that are active, each under its handle; \<^verbatim>\<open>highlight\<close> of the layer view adds one under
  a new handle and \<^verbatim>\<open>remove\<close> of a handle takes it away.
\<close>

record hover_state =
  highlight :: "nat option"
  objectId :: objectId_value
  feature_graphic :: panel_graphic
  layerView_highlights :: "(nat \<times> graphic) list"
  next_handle :: nat

text \<open>\<^verbatim>\<open>highlight?.remove()\<close>\<close>

definition highlight_remove :: "nat option \<Rightarrow> (nat \<times> graphic) list \<Rightarrow> (nat \<times> graphic) list" where
  "highlight_remove h hs = (case h of None \<Rightarrow> hs | Some n \<Rightarrow> filter (\<lambda>(m, g). m \<noteq> n) hs)"

text \<open>The value of \<^verbatim>\<open>newId\<close> as the variable \<^verbatim>\<open>objectId\<close> holds it.\<close>

definition id_value :: "attribute_value option \<Rightarrow> objectId_value" where
  "id_value newId = (case newId of None \<Rightarrow> IdUndefined | Some v \<Rightarrow> IdValue v)"

text \<open>
  The state when the listener is installed: \<^verbatim>\<open>feature.graphic = defaultGraphic\<close> has run
  and \<^verbatim>\<open>let highlight, objectId\<close> declares both variables \<^verbatim>\<open>undefined\<close>.
\<close>

definition hover_init :: hover_state where
  "hover_init = \<lparr>highlight = None, objectId = IdUndefined, feature_graphic = DefaultGraphic,
     layerView_highlights = [], next_handle = 0\<rparr>"

subsection \<open>The hover listener\<close>

text \<open>
  The function given to \<^verbatim>\<open>promiseUtils.debounce\<close>, from the results of the hit test on:
  the results whose layer has a popup template are kept, the first of them is the result,
  and its attribute \<^verbatim>\<open>csaPickupsLayer.objectIdField\<close> is \<^verbatim>\<open>newId\<close>. In the second
  branch \<^verbatim>\<open>newId\<close> is truthy, so there is a result.
\<close>

definition graphicUpdate :: "string \<Rightarrow> hit list \<Rightarrow> hover_state \<Rightarrow> hover_state" where
  "graphicUpdate objectIdField hitTest_results s =
     (let results = filter (\<lambda>result. popupTemplate (layer (graphic result)) \<noteq> None)
                      hitTest_results;
          result = at0 results;
          newId = (case result of None \<Rightarrow> None
                   | Some r \<Rightarrow> map_of (attributes (graphic r)) objectIdField)
      in if \<not> truthy newId then
           s\<lparr>layerView_highlights := highlight_remove (highlight s) (layerView_highlights s),
             objectId := IdDefaultGraphic,
             feature_graphic := DefaultGraphic\<rparr>
         else if objectId s \<noteq> id_value newId then
           (case result of None \<Rightarrow> s
            | Some r \<Rightarrow>
                s\<lparr>layerView_highlights :=
                    highlight_remove (highlight s) (layerView_highlights s)
                      @ [(next_handle s, graphic r)],
                  objectId := id_value newId,
                  feature_graphic := HitGraphic (graphic r),
                  highlight := Some (next_handle s),
                  next_handle := Suc (next_handle s)\<rparr>)
         else s)"

text \<open>
  A call of the debounced function gives a promise. It is rejected with an error when the
  hit test fails or when the call is aborted, and then no assignment of the function has
  run; otherwise the function runs on the results of the hit test.
\<close>

definition debouncedGraphicUpdate :: "string \<Rightarrow> 'e + hit list \<Rightarrow> hover_state \<Rightarrow> 'e + hover_state" where
  "debouncedGraphicUpdate objectIdField hitTest s =
     (case hitTest of Inl error \<Rightarrow> Inl error
      | Inr results \<Rightarrow> Inr (graphicUpdate objectIdField results s))"

text \<open>
  The listener of \<^verbatim>\<open>arcgisViewPointerMove\<close>: the state after it, and the error that its
  \<^verbatim>\<open>catch\<close> callback throws, if any. The predicate \<^verbatim>\<open>promiseUtils.isAbortError\<close> of the
  SDK is a parameter.
\<close>

definition arcgisViewPointerMove ::
    "('e \<Rightarrow> bool) \<Rightarrow> string \<Rightarrow> 'e + hit list \<Rightarrow> hover_state \<Rightarrow> hover_state \<times> 'e option" where
  "arcgisViewPointerMove isAbortError objectIdField hitTest s =
     (case debouncedGraphicUpdate objectIdField hitTest s of
        Inr s' \<Rightarrow> (s', None)
      | Inl error \<Rightarrow> (s, if \<not> isAbortError error then Some error else None))"

text \<open>The pointer moves of a session, one after the other.\<close>

fun pointer_moves ::
    "('e \<Rightarrow> bool) \<Rightarrow> string \<Rightarrow> ('e + hit list) list \<Rightarrow> hover_state \<Rightarrow> hover_state" where
  "pointer_moves isAbortError objectIdField [] s = s"
| "pointer_moves isAbortError objectIdField (hitTest # rest) s =
     pointer_moves isAbortError objectIdField rest
       (fst (arcgisViewPointerMove isAbortError objectIdField hitTest s))"

subsection \<open>The Hover Sync state machine and its invariant\<close>

datatype hover_sync = NoSelection | Selected attribute_value

definition sync_state :: "hover_state \<Rightarrow> hover_sync" where
  "sync_state s = (case objectId s of IdValue v \<Rightarrow> Selected v | _ \<Rightarrow> NoSelection)"

text \<open>A result is eligible when the layer of its graphic has a popup template.\<close>

definition eligible :: "hit \<Rightarrow> bool" where
  "eligible result =
     (case popupTemplate (layer (graphic result)) of None \<Rightarrow> False | Some t \<Rightarrow> True)"

text \<open>The feature id of a graphic: its attribute under the object id field.\<close>

definition feature_id :: "string \<Rightarrow> graphic \<Rightarrow> attribute_value option" where
  "feature_id objectIdField g = map_of (attributes g) objectIdField"

text \<open>
  The panel and the active highlights agree: the default panel with no active highlight,
  or the panel of a feature with one active highlight, on a feature of the same id.
\<close>

definition panel_matches_highlight :: "string \<Rightarrow> hover_state \<Rightarrow> bool" where
  "panel_matches_highlight objectIdField s =
     (case feature_graphic s of
        DefaultGraphic \<Rightarrow> layerView_highlights s = [] \<and> sync_state s = NoSelection
      | HitGraphic g \<Rightarrow>
          (case feature_id objectIdField g of
             None \<Rightarrow> False
           | Some v \<Rightarrow>
               map (\<lambda>(h, g'). feature_id objectIdField g') (layerView_highlights s) = [Some v]
               \<and> sync_state s = Selected v))"

text \<open>
  What every run of the update keeps: the only active highlight is the one the handle in
  \<^verbatim>\<open>highlight\<close> stands for, it is on the graphic of the panel, whose id is truthy and is
  the value of \<^verbatim>\<open>objectId\<close>, and the handles in use are below the next one.
\<close>

definition hover_inv :: "string \<Rightarrow> hover_state \<Rightarrow> bool" where
  "hover_inv objectIdField s =
     ((case feature_graphic s of
         DefaultGraphic \<Rightarrow>
           layerView_highlights s = []
           \<and> (objectId s = IdUndefined \<or> objectId s = IdDefaultGraphic)
       | HitGraphic g \<Rightarrow>
           (case highlight s of None \<Rightarrow> False
            | Some h \<Rightarrow> layerView_highlights s = [(h, g)])
           \<and> (case feature_id objectIdField g of None \<Rightarrow> False
              | Some v \<Rightarrow> truthy (Some v) \<and> objectId s = IdValue v))
      \<and> (case highlight s of None \<Rightarrow> True | Some h \<Rightarrow> h < next_handle s))"

subsection \<open>The debounced calls of a session\<close>

text \<open>
  \<^verbatim>\<open>promiseUtils.debounce\<close> is the SDK's, not code of the script; the comment in
  \<^verbatim>\<open>main.js\<close> relies on it "to ensure input function isn't invoked more than once at a
  time". While a call of the function is in flight, a new call waits; a later call takes
  the place of the waiting one, whose promise is rejected with the SDK's abort error; when
  the call in flight has finished, the waiting call starts.

  A pointer move carries the outcome that its hit test will have, the results or a
  failure. The end of the hit test in flight is an action of its own, so that pointer
  moves can come before it.
\<close>

datatype 'e action = PointerMove "'e + hit list" | HitTestDone

record 'e session =
  hover :: hover_state
  in_flight :: "('e + hit list) option"
  waiting :: "('e + hit list) option"
  thrown :: "'e list"

text \<open>The listener on the promise of one call, from the outcome of the call.\<close>

definition settle ::
    "('e \<Rightarrow> bool) \<Rightarrow> string \<Rightarrow> 'e + hit list \<Rightarrow> 'e session \<Rightarrow> 'e session" where
  "settle isAbortError objectIdField outcome \<sigma> =
     (case arcgisViewPointerMove isAbortError objectIdField outcome (hover \<sigma>) of
        (s', None) \<Rightarrow> \<sigma>\<lparr>hover := s'\<rparr>
      | (s', Some error) \<Rightarrow> \<sigma>\<lparr>hover := s', thrown := thrown \<sigma> @ [error]\<rparr>)"

fun step ::
    "('e \<Rightarrow> bool) \<Rightarrow> 'e \<Rightarrow> string \<Rightarrow> 'e action \<Rightarrow> 'e session \<Rightarrow> 'e session" where
  "step isAbortError abortError objectIdField (PointerMove hitTest) \<sigma> =
     (case in_flight \<sigma> of
        None \<Rightarrow> \<sigma>\<lparr>in_flight := Some hitTest\<rparr>
      | Some running \<Rightarrow>
          (case waiting \<sigma> of
             None \<Rightarrow> \<sigma>\<lparr>waiting := Some hitTest\<rparr>
           | Some replaced \<Rightarrow>
               (settle isAbortError objectIdField (Inl abortError) \<sigma>)
                 \<lparr>waiting := Some hitTest\<rparr>))"
| "step isAbortError abortError objectIdField HitTestDone \<sigma> =
     (case in_flight \<sigma> of
        None \<Rightarrow> \<sigma>
      | Some running \<Rightarrow>
          (settle isAbortError objectIdField running \<sigma>)
            \<lparr>in_flight := waiting \<sigma>, waiting := None\<rparr>)"

fun session_run ::
    "('e \<Rightarrow> bool) \<Rightarrow> 'e \<Rightarrow> string \<Rightarrow> 'e action list \<Rightarrow> 'e session \<Rightarrow> 'e session" where
  "session_run isAbortError abortError objectIdField [] \<sigma> = \<sigma>"
| "session_run isAbortError abortError objectIdField (a # rest) \<sigma> =
     session_run isAbortError abortError objectIdField rest
       (step isAbortError abortError objectIdField a \<sigma>)"

definition session_init :: "'e session" where
  "session_init = \<lparr>hover = hover_init, in_flight = None, waiting = None, thrown = []\<rparr>"

subsection \<open>Example hit-test results\<close>

definition csaLayer :: layer where
  "csaLayer = \<lparr>popupTemplate = Some (PopupTemplate ''{Farm_Name}'')\<rparr>"

definition plainLayer :: layer where
  "plainLayer = \<lparr>popupTemplate = None\<rparr>"

definition hit_of :: "int \<Rightarrow> layer \<Rightarrow> hit" where
  "hit_of n l = \<lparr>graphic = \<lparr>attributes = [(''OBJECTID'', AttrNumber n)], layer = l\<rparr>\<rparr>"

text \<open>An abort predicate for the examples: the error is its name.\<close>

definition abort_by_name :: "string \<Rightarrow> bool" where
  "abort_by_name error = (error = ''AbortError'')"

text \<open>
  A state with the feature 7 selected: its graphic in the panel and under the one active
  highlight.
\<close>

definition selected_7 :: hover_state where
  "selected_7 = \<lparr>highlight = Some 0, objectId = IdValue (AttrNumber 7),
     feature_graphic = HitGraphic (graphic (hit_of 7 csaLayer)),
     layerView_highlights = [(0, graphic (hit_of 7 csaLayer))], next_handle = 1\<rparr>"

subsection \<open>Example records\<close>

definition rec_AB :: feature_record where
  "rec_AB = \<lparr>objectid = 1, farm_name = ''First'', farm_descript = [], location = [],
     main_products = ''Eggs, Fruit'', products = [''Eggs'', ''Fruit''],
     website = [], email = []\<rparr>"




definition empty_page :: page where
  "empty_page = \<lparr>container = [], featureEffect = None\<rparr>"

section \<open>Properties of the chip-selection listener\<close>

lemma forEach_display_filter:
  "forEach_display pf fs c = c @ filter (isMatch pf) fs"
  by (induction fs arbitrary: c) (simp_all add: displayCard_def)

lemma container_calciteChipGroupSelect:
  "container (calciteChipGroupSelect pf fs pg) = filter (isMatch pf) fs"
  by (simp add: calciteChipGroupSelect_def forEach_display_filter)

lemma isMatch_empty: "isMatch [] f"
  by (simp add: isMatch_def array_includes_def)

text \<open>
  C9. When the selected category set is empty, the listener re-renders every Feature
  Record: the container holds all the records, in their order.
\<close>

theorem empty_selection_shows_all:
  "container (calciteChipGroupSelect [] features pg) = features"
  by (simp add: container_calciteChipGroupSelect isMatch_empty)

subsection \<open>Counting matches against the superset test\<close>








subsection \<open>The filter expression\<close>

lemma sql_like_percent:
  "sql_like (CHR ''%'' # q) s = (\<exists>k\<le>length s. sql_like q (drop k s))"
proof -
  have "sql_like (CHR ''%'' # q) s = (\<exists>k\<in>set [0..<Suc (length s)]. sql_like q (drop k s))"
    by (simp add: list_ex_iff del: upt_Suc)
  also have "\<dots> = (\<exists>k\<le>length s. sql_like q (drop k s))"
    by (auto simp del: upt_Suc simp: less_Suc_eq_le)
  finally show ?thesis .
qed

lemma like_char_same: "like_char p p"
  by (simp add: like_char_def)

lemma sql_like_any: "sql_like [CHR ''%''] s"
proof -
  have "\<exists>k\<le>length s. sql_like [] (drop k s)"
    by (rule exI [of _ "length s"]) simp
  then show ?thesis
    by (simp only: sql_like_percent)
qed

lemma sql_like_literal:
  "sql_like q t \<Longrightarrow> sql_like (p @ q) (p @ t)"
proof (induction p)
  case Nil
  then show ?case by simp
next
  case (Cons a p)
  show ?case
  proof (cases "a = CHR ''%''")
    case True
    have "sql_like (p @ q) (drop 1 (a # p @ t))"
      using Cons by simp
    moreover have "1 \<le> length (a # p @ t)" by simp
    ultimately have "\<exists>k\<le>length (a # p @ t). sql_like (p @ q) (drop k (a # p @ t))"
      by blast
    then show ?thesis
      using True by (simp only: append_Cons sql_like_percent)
  next
    case False
    then show ?thesis
      using Cons by (simp add: like_char_same)
  qed
qed

lemma sql_like_contains:
  assumes "sublist c raw"
  shows "sql_like (CHR ''%'' # c @ [CHR ''%'']) raw"
proof -
  obtain ps ss where raw: "raw = ps @ c @ ss"
    using assms unfolding sublist_def by blast
  have "sql_like (c @ [CHR ''%'']) (c @ ss)"
    by (rule sql_like_literal) (rule sql_like_any)
  then have "sql_like (c @ [CHR ''%'']) (drop (length ps) raw)"
    using raw by simp
  moreover have "length ps \<le> length raw"
    using raw by simp
  ultimately show ?thesis
    unfolding sql_like_percent by blast
qed

lemma where_clause_featureFilter:
  "where_clause (featureFilter pf) =
   (''Main_Products LIKE '' @ [quote]) @ (CHR ''%'' # join '', '' pf @ [CHR ''%'']) @ [quote]"
  by (simp add: featureFilter_def)

lemma evaluate_where_pattern:
  assumes "quote \<notin> set pat"
  shows "evaluate_where ((''Main_Products LIKE '' @ [quote]) @ pat @ [quote]) (Some raw) =
         Some (sql_like pat raw)"
proof -
  let ?pre = "''Main_Products LIKE '' @ [quote]"
  have d: "drop (length ?pre) (?pre @ pat @ [quote]) = pat @ [quote]"
    by (rule append_eq_conv_conj [THEN iffD1, THEN conjunct2, symmetric]) simp
  have b: "butlast (pat @ [quote]) = pat" by simp
  have pre: "prefix ?pre (?pre @ pat @ [quote])" by (rule prefixI) simp
  have len: "length ?pre < length (?pre @ pat @ [quote])" by simp
  have l: "last (?pre @ pat @ [quote]) = quote" by simp
  show ?thesis
    unfolding evaluate_where_def Let_def d b using pre len l assms
    by (simp only: simp_thms if_True option.case)
qed

lemma effect_includes_calciteChipGroupSelect:
  "effect_includes (calciteChipGroupSelect pf fs pg) raw
   = evaluate_where (where_clause (featureFilter pf)) raw"
  by (simp add: effect_includes_def calciteChipGroupSelect_def)

text \<open>
  C2, as the code has it. When one category is selected, and it does not hold the
  delimiter of the pattern, the filter expression that the listener constructs and
  assigns to the layer view matches a feature whenever that category occurs in the raw
  products field of the feature.
\<close>

theorem single_selection_filter_matches:
  assumes "sublist c raw"
    and "quote \<notin> set c"
  shows "effect_includes (calciteChipGroupSelect [c] features pg) (Some raw) = Some True"
proof -
  have q: "quote \<notin> set (CHR ''%'' # join '', '' [c] @ [CHR ''%''])"
    using assms(2) by (simp add: quote_def)
  have "sql_like (CHR ''%'' # join '', '' [c] @ [CHR ''%'']) raw"
    using sql_like_contains [OF assms(1)] by simp
  then show ?thesis
    unfolding effect_includes_calciteChipGroupSelect where_clause_featureFilter
      evaluate_where_pattern [OF q]
    by simp
qed

theorem single_selection_filter_matches_witness:
  "sublist ''Cut_Flowers'' ''Eggs, Cut_Flowers, Fruit'' \<and> quote \<notin> set ''Cut_Flowers'' \<and>
   effect_includes (calciteChipGroupSelect [''Cut_Flowers''] [rec_AB] empty_page)
     (Some ''Eggs, Cut_Flowers, Fruit'') = Some True"
proof -
  have h1: "sublist ''Cut_Flowers'' ''Eggs, Cut_Flowers, Fruit''"
    unfolding sublist_def
    by (rule exI [of _ "''Eggs, ''"], rule exI [of _ "'', Fruit''"]) simp
  have h2: "quote \<notin> set ''Cut_Flowers''"
    by (simp add: quote_def)
  show ?thesis
    using h1 h2 single_selection_filter_matches [OF h1 h2, of "[rec_AB]" empty_page]
    by blast
qed

text \<open>
  C2 as stated fails with two categories selected: Eggs is selected and occurs in the raw
  products field Eggs, and the expression that the listener assigns, whose pattern is
  \<^verbatim>\<open>%Eggs, Fruit%\<close>, does not match that feature.
\<close>

theorem any_of_counterexample:
  "''Eggs'' \<in> set [''Eggs'', ''Fruit''] \<and> sublist ''Eggs'' ''Eggs'' \<and>
   effect_includes (calciteChipGroupSelect [''Eggs'', ''Fruit''] [rec_AB] empty_page)
     (Some ''Eggs'') = Some False"
proof -
  have n: "\<not> sql_like (CHR ''%'' # join '', '' [''Eggs'', ''Fruit''] @ [CHR ''%'']) ''Eggs''"
    by code_simp
  have q: "quote \<notin> set (CHR ''%'' # join '', '' [''Eggs'', ''Fruit''] @ [CHR ''%''])"
    by (simp add: quote_def)
  have "effect_includes (calciteChipGroupSelect [''Eggs'', ''Fruit''] [rec_AB] empty_page)
     (Some ''Eggs'') = Some False"
    unfolding effect_includes_calciteChipGroupSelect where_clause_featureFilter
      evaluate_where_pattern [OF q]
    using n by simp
  then show ?thesis by simp
qed

section \<open>Properties of the hover listener\<close>

lemma hover_inv_init: "hover_inv fld hover_init"
  by (simp add: hover_inv_def hover_init_def)

lemma graphicUpdate_cases:
  "graphicUpdate fld rs s =
     (case at0 (filter eligible rs) of
        None \<Rightarrow> s\<lparr>layerView_highlights := highlight_remove (highlight s) (layerView_highlights s),
                  objectId := IdDefaultGraphic, feature_graphic := DefaultGraphic\<rparr>
      | Some r \<Rightarrow>
          if \<not> truthy (feature_id fld (graphic r)) then
            s\<lparr>layerView_highlights := highlight_remove (highlight s) (layerView_highlights s),
              objectId := IdDefaultGraphic, feature_graphic := DefaultGraphic\<rparr>
          else if objectId s \<noteq> id_value (feature_id fld (graphic r)) then
            s\<lparr>layerView_highlights :=
                highlight_remove (highlight s) (layerView_highlights s) @ [(next_handle s, graphic r)],
              objectId := id_value (feature_id fld (graphic r)),
              feature_graphic := HitGraphic (graphic r),
              highlight := Some (next_handle s),
              next_handle := Suc (next_handle s)\<rparr>
          else s)"
proof -
  have "(\<lambda>result. popupTemplate (layer (graphic result)) \<noteq> None) = eligible"
    by (rule ext) (simp add: eligible_def split: option.split)
  then show ?thesis
    by (simp add: graphicUpdate_def feature_id_def Let_def split: option.split)
qed

lemma highlight_remove_inv:
  "hover_inv fld s \<Longrightarrow> highlight_remove (highlight s) (layerView_highlights s) = []"
  by (auto simp: hover_inv_def highlight_remove_def split: panel_graphic.splits option.splits)

lemma hover_inv_graphicUpdate:
  assumes "hover_inv fld s"
  shows "hover_inv fld (graphicUpdate fld rs s)"
proof -
  note rm = highlight_remove_inv [OF assms]
  have h: "case highlight s of None \<Rightarrow> True | Some h \<Rightarrow> h < next_handle s"
    using assms by (simp add: hover_inv_def)
  show ?thesis
  proof (cases "at0 (filter eligible rs)")
    case None
    then show ?thesis
      using h by (simp add: graphicUpdate_cases rm hover_inv_def split: option.splits)
  next
    case (Some r)
    show ?thesis
    proof (cases "truthy (feature_id fld (graphic r))")
      case False
      then show ?thesis
        using h Some by (simp add: graphicUpdate_cases rm hover_inv_def split: option.splits)
    next
      case True
      then obtain v where v: "feature_id fld (graphic r) = Some v" by (cases "feature_id fld (graphic r)") auto
      show ?thesis
        using True v Some assms
        by (auto simp: graphicUpdate_cases rm hover_inv_def id_value_def split: option.splits panel_graphic.splits)
    qed
  qed
qed

lemma hover_inv_arcgisViewPointerMove:
  "hover_inv fld s \<Longrightarrow> hover_inv fld (fst (arcgisViewPointerMove ab fld h s))"
  by (cases h) (simp_all add: arcgisViewPointerMove_def debouncedGraphicUpdate_def hover_inv_graphicUpdate)

lemma hover_inv_pointer_moves:
  "hover_inv fld s \<Longrightarrow> hover_inv fld (pointer_moves ab fld hs s)"
  by (induction hs arbitrary: s) (simp_all add: hover_inv_arcgisViewPointerMove)

lemma hover_inv_reachable: "hover_inv fld (pointer_moves ab fld hs hover_init)"
  by (rule hover_inv_pointer_moves) (rule hover_inv_init)

lemma hover_inv_matches: "hover_inv fld s \<Longrightarrow> panel_matches_highlight fld s"
  by (auto simp: hover_inv_def panel_matches_highlight_def sync_state_def
      split: panel_graphic.splits option.splits)

text \<open>
  C4. After every run of the listener, from the state in which it is installed, the detail
  panel and the active highlight are on a feature of the same id, which is the stored
  id, or the panel is the default one, no highlight is active and the state is
  NoSelection.
\<close>

theorem panel_and_highlight_agree:
  "panel_matches_highlight objectIdField
     (pointer_moves isAbortError objectIdField hitTests hover_init)"
  by (rule hover_inv_matches) (rule hover_inv_reachable)

lemma at0_filter_find: "at0 (filter P xs) = List.find P xs"
  by (induction xs) simp_all

lemma graphicUpdate_find:
  "graphicUpdate fld rs s =
     (case List.find eligible rs of
        None \<Rightarrow> s\<lparr>layerView_highlights := highlight_remove (highlight s) (layerView_highlights s),
                  objectId := IdDefaultGraphic, feature_graphic := DefaultGraphic\<rparr>
      | Some r \<Rightarrow>
          if \<not> truthy (feature_id fld (graphic r)) then
            s\<lparr>layerView_highlights := highlight_remove (highlight s) (layerView_highlights s),
              objectId := IdDefaultGraphic, feature_graphic := DefaultGraphic\<rparr>
          else if objectId s \<noteq> id_value (feature_id fld (graphic r)) then
            s\<lparr>layerView_highlights :=
                highlight_remove (highlight s) (layerView_highlights s) @ [(next_handle s, graphic r)],
              objectId := id_value (feature_id fld (graphic r)),
              feature_graphic := HitGraphic (graphic r),
              highlight := Some (next_handle s),
              next_handle := Suc (next_handle s)\<rparr>
          else s)"
  by (simp only: graphicUpdate_cases at0_filter_find)

text \<open>
  C10. A result is eligible exactly when the layer of its graphic has a popup template,
  and the update acts on the first eligible result in the order of the hit test. When the
  results before \<open>r\<close> have no popup template and \<open>r\<close> has one, the update is decided by
  the id and the graphic of \<open>r\<close>, whatever the skipped results and the later results are:
  it clears the selection on a falsy id, leaves the state on the stored id, and otherwise
  puts the graphic of \<open>r\<close> in the panel and under a new highlight. When no result has a
  popup template, the update clears the selection.
\<close>

theorem first_eligible_result_decides:
  assumes "\<forall>x\<in>set skipped. popupTemplate (layer (graphic x)) = None"
    and "popupTemplate (layer (graphic r)) = Some t"
  shows "graphicUpdate objectIdField (skipped @ r # later) s =
           (if \<not> truthy (feature_id objectIdField (graphic r)) then
              s\<lparr>layerView_highlights := highlight_remove (highlight s) (layerView_highlights s),
                objectId := IdDefaultGraphic,
                feature_graphic := DefaultGraphic\<rparr>
            else if objectId s \<noteq> id_value (feature_id objectIdField (graphic r)) then
              s\<lparr>layerView_highlights :=
                  highlight_remove (highlight s) (layerView_highlights s)
                    @ [(next_handle s, graphic r)],
                objectId := id_value (feature_id objectIdField (graphic r)),
                feature_graphic := HitGraphic (graphic r),
                highlight := Some (next_handle s),
                next_handle := Suc (next_handle s)\<rparr>
            else s)
       \<and> graphicUpdate objectIdField skipped s =
           s\<lparr>layerView_highlights := highlight_remove (highlight s) (layerView_highlights s),
             objectId := IdDefaultGraphic,
             feature_graphic := DefaultGraphic\<rparr>"
proof -
  have sk: "list_all (\<lambda>x. \<not> eligible x) skipped"
    using assms(1) by (simp add: list_all_iff eligible_def)
  have r: "eligible r"
    using assms(2) by (simp add: eligible_def)
  have none: "List.find eligible skipped = None"
    using sk by (simp add: find_None_iff list_all_iff)
  have first: "List.find eligible (skipped @ r # later) = Some r"
    using sk r by (induction skipped) simp_all
  show ?thesis
    by (simp add: graphicUpdate_find none first)
qed

theorem first_eligible_result_decides_witness:
  "popupTemplate (layer (graphic (hit_of 5 plainLayer))) = None
   \<and> popupTemplate (layer (graphic (hit_of 7 csaLayer))) = Some (PopupTemplate ''{Farm_Name}'')
   \<and> feature_graphic (graphicUpdate ''OBJECTID''
        ([hit_of 5 plainLayer] @ hit_of 7 csaLayer # [hit_of 8 csaLayer]) hover_init)
      = HitGraphic (graphic (hit_of 7 csaLayer))
   \<and> objectId (graphicUpdate ''OBJECTID''
        ([hit_of 5 plainLayer] @ hit_of 7 csaLayer # [hit_of 8 csaLayer]) hover_init)
      = IdValue (AttrNumber 7)
   \<and> layerView_highlights (graphicUpdate ''OBJECTID''
        ([hit_of 5 plainLayer] @ hit_of 7 csaLayer # [hit_of 8 csaLayer]) hover_init)
      = [(0, graphic (hit_of 7 csaLayer))]"
proof -
  have h1: "\<forall>x\<in>set [hit_of 5 plainLayer]. popupTemplate (layer (graphic x)) = None"
    by (simp add: hit_of_def plainLayer_def)
  have h2: "popupTemplate (layer (graphic (hit_of 7 csaLayer))) = Some (PopupTemplate ''{Farm_Name}'')"
    by (simp add: hit_of_def csaLayer_def)
  have id7: "feature_id ''OBJECTID'' (graphic (hit_of 7 csaLayer)) = Some (AttrNumber 7)"
    by (simp add: feature_id_def hit_of_def)
  show ?thesis
    using h1 h2 first_eligible_result_decides [OF h1 h2, of "''OBJECTID''" "[hit_of 8 csaLayer]" hover_init]
    by (simp add: id7 id_value_def hover_init_def highlight_remove_def)
qed

lemma highlight_remove_idem:
  "highlight_remove h (highlight_remove h hs) = highlight_remove h hs"
  by (simp add: highlight_remove_def split: option.split)

lemma graphicUpdate_idem:
  "graphicUpdate fld rs (graphicUpdate fld rs s) = graphicUpdate fld rs s"
  by (simp add: graphicUpdate_find highlight_remove_idem split: option.split)

lemma sync_state_Selected: "(sync_state s = Selected v) = (objectId s = IdValue v)"
  by (simp add: sync_state_def split: objectId_value.split)

lemma hover_inv_Selected_truthy:
  "hover_inv fld s \<Longrightarrow> objectId s = IdValue v \<Longrightarrow> truthy (Some v)"
  by (auto simp: hover_inv_def split: panel_graphic.splits option.splits)

text \<open>
  C5. In a state Selected(id), a hit test whose first eligible result has that id changes
  nothing: the listener leaves the state as it is, with the same highlight and panel, and
  throws nothing. Running the update twice on the same results is running it once.
\<close>

theorem same_id_is_noop:
  assumes "sync_state (pointer_moves isAbortError objectIdField hitTests hover_init) = Selected v"
    and "List.find eligible results = Some r"
    and "feature_id objectIdField (graphic r) = Some v"
  shows "arcgisViewPointerMove isAbortError objectIdField (Inr results)
           (pointer_moves isAbortError objectIdField hitTests hover_init)
         = (pointer_moves isAbortError objectIdField hitTests hover_init, None)
       \<and> graphicUpdate objectIdField results (graphicUpdate objectIdField results s)
         = graphicUpdate objectIdField results s"
proof -
  let ?s = "pointer_moves isAbortError objectIdField hitTests hover_init"
  have obj: "objectId ?s = IdValue v"
    using assms(1) by (simp add: sync_state_Selected)
  have "truthy (Some v)"
    using hover_inv_reachable obj by (rule hover_inv_Selected_truthy)
  then have "graphicUpdate objectIdField results ?s = ?s"
    using obj assms(2,3) by (simp add: graphicUpdate_find id_value_def)
  then show ?thesis
    by (simp add: arcgisViewPointerMove_def debouncedGraphicUpdate_def graphicUpdate_idem)
qed

theorem same_id_is_noop_witness:
  "sync_state (pointer_moves abort_by_name ''OBJECTID'' [Inr [hit_of 7 csaLayer]] hover_init)
     = Selected (AttrNumber 7)
   \<and> List.find eligible [hit_of 5 plainLayer, hit_of 7 csaLayer] = Some (hit_of 7 csaLayer)
   \<and> feature_id ''OBJECTID'' (graphic (hit_of 7 csaLayer)) = Some (AttrNumber 7)
   \<and> arcgisViewPointerMove abort_by_name ''OBJECTID''
        (Inr [hit_of 5 plainLayer, hit_of 7 csaLayer])
        (pointer_moves abort_by_name ''OBJECTID'' [Inr [hit_of 7 csaLayer]] hover_init)
      = (pointer_moves abort_by_name ''OBJECTID'' [Inr [hit_of 7 csaLayer]] hover_init, None)"
proof -
  have h1: "sync_state (pointer_moves abort_by_name ''OBJECTID'' [Inr [hit_of 7 csaLayer]] hover_init)
     = Selected (AttrNumber 7)"
    by (simp add: arcgisViewPointerMove_def debouncedGraphicUpdate_def graphicUpdate_def
        hit_of_def csaLayer_def hover_init_def id_value_def sync_state_def)
  have h2: "List.find eligible [hit_of 5 plainLayer, hit_of 7 csaLayer] = Some (hit_of 7 csaLayer)"
    by (simp add: eligible_def hit_of_def csaLayer_def plainLayer_def)
  have h3: "feature_id ''OBJECTID'' (graphic (hit_of 7 csaLayer)) = Some (AttrNumber 7)"
    by (simp add: feature_id_def hit_of_def)
  show ?thesis
    using h1 h2 h3 same_id_is_noop [OF h1 h2 h3, of hover_init] by blast
qed

text \<open>
  C6. When the hit test has no eligible result, the update, from any state that the
  listener can be in, leaves no active highlight, the state NoSelection and the default
  panel; the handle and the counter of handles stay.
\<close>

theorem no_eligible_result_clears:
  assumes "hover_inv objectIdField s"
    and "List.find eligible results = None"
  shows "graphicUpdate objectIdField results s =
           s\<lparr>layerView_highlights := [], objectId := IdDefaultGraphic,
             feature_graphic := DefaultGraphic\<rparr>
       \<and> layerView_highlights (graphicUpdate objectIdField results s) = []
       \<and> sync_state (graphicUpdate objectIdField results s) = NoSelection
       \<and> feature_graphic (graphicUpdate objectIdField results s) = DefaultGraphic"
proof -
  have "highlight_remove (highlight s) (layerView_highlights s) = []"
    using assms(1) by (rule highlight_remove_inv)
  then show ?thesis
    using assms(2) by (simp add: graphicUpdate_find sync_state_def)
qed

theorem no_eligible_result_clears_witness:
  "hover_inv ''OBJECTID'' selected_7
   \<and> List.find eligible [hit_of 5 plainLayer] = None
   \<and> layerView_highlights selected_7 = [(0, graphic (hit_of 7 csaLayer))]
   \<and> sync_state selected_7 = Selected (AttrNumber 7)
   \<and> layerView_highlights (graphicUpdate ''OBJECTID'' [hit_of 5 plainLayer] selected_7) = []
   \<and> sync_state (graphicUpdate ''OBJECTID'' [hit_of 5 plainLayer] selected_7) = NoSelection
   \<and> feature_graphic (graphicUpdate ''OBJECTID'' [hit_of 5 plainLayer] selected_7)
      = DefaultGraphic"
proof -
  have h1: "hover_inv ''OBJECTID'' selected_7"
    by (simp add: hover_inv_def selected_7_def feature_id_def hit_of_def)
  have h2: "List.find eligible [hit_of 5 plainLayer] = None"
    by (simp add: eligible_def hit_of_def plainLayer_def)
  have pre: "layerView_highlights selected_7 = [(0, graphic (hit_of 7 csaLayer))]
      \<and> sync_state selected_7 = Selected (AttrNumber 7)"
    by (simp add: selected_7_def sync_state_def)
  show ?thesis
    using h1 h2 pre no_eligible_result_clears [OF h1 h2] by blast
qed

text \<open>
  C7, as the code has it. When the first eligible result has a truthy id (not 0, not the
  empty string, not null) that is not the current selection, the update removes the old
  highlight, makes a new highlight on the graphic of the hit, which is then the only
  active one, goes to Selected of the new id and shows the graphic of the hit in the
  panel.
\<close>

theorem new_id_moves_highlight:
  assumes "List.find eligible results = Some r"
    and "feature_id objectIdField (graphic r) = Some v"
    and "truthy (Some v)"
    and "sync_state (pointer_moves isAbortError objectIdField hitTests hover_init) \<noteq> Selected v"
  shows "layerView_highlights (graphicUpdate objectIdField results
           (pointer_moves isAbortError objectIdField hitTests hover_init))
         = [(next_handle (pointer_moves isAbortError objectIdField hitTests hover_init), graphic r)]
       \<and> next_handle (pointer_moves isAbortError objectIdField hitTests hover_init)
           \<notin> fst ` set (layerView_highlights
               (pointer_moves isAbortError objectIdField hitTests hover_init))
       \<and> highlight (graphicUpdate objectIdField results
           (pointer_moves isAbortError objectIdField hitTests hover_init))
         = Some (next_handle (pointer_moves isAbortError objectIdField hitTests hover_init))
       \<and> sync_state (graphicUpdate objectIdField results
           (pointer_moves isAbortError objectIdField hitTests hover_init)) = Selected v
       \<and> feature_graphic (graphicUpdate objectIdField results
           (pointer_moves isAbortError objectIdField hitTests hover_init)) = HitGraphic (graphic r)"
proof -
  let ?s = "pointer_moves isAbortError objectIdField hitTests hover_init"
  have inv: "hover_inv objectIdField ?s" by (rule hover_inv_reachable)
  have rm: "highlight_remove (highlight ?s) (layerView_highlights ?s) = []"
    using inv by (rule highlight_remove_inv)
  have neq: "objectId ?s \<noteq> IdValue v"
    using assms(4) by (simp add: sync_state_Selected)
  have fresh: "next_handle ?s \<notin> fst ` set (layerView_highlights ?s)"
    using inv by (auto simp: hover_inv_def split: panel_graphic.splits option.splits)
  have "graphicUpdate objectIdField results ?s =
        ?s\<lparr>layerView_highlights := [(next_handle ?s, graphic r)],
           objectId := IdValue v,
           feature_graphic := HitGraphic (graphic r),
           highlight := Some (next_handle ?s),
           next_handle := Suc (next_handle ?s)\<rparr>"
    using assms(1-3) neq by (simp add: graphicUpdate_find rm id_value_def)
  then show ?thesis
    using fresh by (simp add: sync_state_def)
qed

theorem new_id_moves_highlight_witness:
  "List.find eligible [hit_of 8 csaLayer] = Some (hit_of 8 csaLayer)
   \<and> feature_id ''OBJECTID'' (graphic (hit_of 8 csaLayer)) = Some (AttrNumber 8)
   \<and> truthy (Some (AttrNumber 8))
   \<and> sync_state (pointer_moves abort_by_name ''OBJECTID'' [Inr [hit_of 7 csaLayer]] hover_init)
      \<noteq> Selected (AttrNumber 8)
   \<and> sync_state (graphicUpdate ''OBJECTID'' [hit_of 8 csaLayer]
        (pointer_moves abort_by_name ''OBJECTID'' [Inr [hit_of 7 csaLayer]] hover_init))
      = Selected (AttrNumber 8)
   \<and> feature_graphic (graphicUpdate ''OBJECTID'' [hit_of 8 csaLayer]
        (pointer_moves abort_by_name ''OBJECTID'' [Inr [hit_of 7 csaLayer]] hover_init))
      = HitGraphic (graphic (hit_of 8 csaLayer))"
proof -
  have h1: "List.find eligible [hit_of 8 csaLayer] = Some (hit_of 8 csaLayer)"
    by (simp add: eligible_def hit_of_def csaLayer_def)
  have h2: "feature_id ''OBJECTID'' (graphic (hit_of 8 csaLayer)) = Some (AttrNumber 8)"
    by (simp add: feature_id_def hit_of_def)
  have h3: "truthy (Some (AttrNumber 8))"
    by simp
  have h4: "sync_state (pointer_moves abort_by_name ''OBJECTID'' [Inr [hit_of 7 csaLayer]] hover_init)
      \<noteq> Selected (AttrNumber 8)"
    by (simp add: arcgisViewPointerMove_def debouncedGraphicUpdate_def graphicUpdate_def
        hit_of_def csaLayer_def hover_init_def id_value_def sync_state_def)
  show ?thesis
    using h1 h2 h3 h4 new_id_moves_highlight [OF h1 h2 h3 h4] by blast
qed

text \<open>
  C7 as stated fails on an id that is falsy: from the first state, the only result is
  eligible and has the id 0, which is not the current selection, and the update takes the
  branch of no result: no highlight, NoSelection and the default panel.
\<close>

theorem falsy_id_counterexample:
  "List.find eligible [hit_of 0 csaLayer] = Some (hit_of 0 csaLayer)
   \<and> feature_id ''OBJECTID'' (graphic (hit_of 0 csaLayer)) = Some (AttrNumber 0)
   \<and> sync_state hover_init \<noteq> Selected (AttrNumber 0)
   \<and> layerView_highlights (graphicUpdate ''OBJECTID'' [hit_of 0 csaLayer] hover_init) = []
   \<and> sync_state (graphicUpdate ''OBJECTID'' [hit_of 0 csaLayer] hover_init) = NoSelection
   \<and> feature_graphic (graphicUpdate ''OBJECTID'' [hit_of 0 csaLayer] hover_init)
      = DefaultGraphic"
  by (simp add: eligible_def feature_id_def graphicUpdate_def hit_of_def csaLayer_def
      hover_init_def sync_state_def highlight_remove_def)

text \<open>
  C8. When the call of the debounced update fails, the listener throws nothing exactly
  when the failure is an abort error, and throws the failure itself otherwise; the state
  is as before. When the call succeeds the listener throws nothing.
\<close>

theorem only_abort_errors_are_swallowed:
  "snd (arcgisViewPointerMove isAbortError objectIdField (Inl error) s)
     = (if isAbortError error then None else Some error)
   \<and> fst (arcgisViewPointerMove isAbortError objectIdField (Inl error) s) = s
   \<and> snd (arcgisViewPointerMove isAbortError objectIdField (Inr results) s) = None"
  by (simp add: arcgisViewPointerMove_def debouncedGraphicUpdate_def)

section \<open>Properties of the debounced calls\<close>

lemma settle_abort:
  "isAbortError abortError \<Longrightarrow> settle isAbortError objectIdField (Inl abortError) \<sigma> = \<sigma>"
  by (simp add: settle_def arcgisViewPointerMove_def debouncedGraphicUpdate_def)

lemma hover_settle_rejected:
  "hover (settle isAbortError objectIdField (Inl error) \<sigma>) = hover \<sigma>"
  by (simp add: settle_def arcgisViewPointerMove_def debouncedGraphicUpdate_def)

lemma hover_settle:
  "hover (settle isAbortError objectIdField outcome \<sigma>)
   = fst (arcgisViewPointerMove isAbortError objectIdField outcome (hover \<sigma>))"
  by (simp add: settle_def split: prod.split option.split)

lemma step_PointerMove_twice:
  assumes "isAbortError abortError" and "in_flight \<sigma> = Some running"
  shows "step isAbortError abortError objectIdField (PointerMove later)
           (step isAbortError abortError objectIdField (PointerMove earlier) \<sigma>)
         = step isAbortError abortError objectIdField (PointerMove later) \<sigma>"
  using assms by (auto simp: settle_abort split: option.splits)

lemma session_run_PointerMove_twice:
  assumes "isAbortError abortError" and "in_flight \<sigma> = Some running"
  shows "session_run isAbortError abortError objectIdField
           (PointerMove earlier # PointerMove later # rest) \<sigma>
         = session_run isAbortError abortError objectIdField (PointerMove later # rest) \<sigma>"
  by (simp only: session_run.simps
      step_PointerMove_twice [where isAbortError = isAbortError and abortError = abortError,
        OF assms])

text \<open>
  C3, as the code has it. When the call of the earlier event is still waiting, a hit test
  being in flight, and the later event comes, the earlier call is aborted and its hit test
  never runs: the session goes on as if the earlier event had not come, and when the two
  hit tests that do run have ended, the displayed state is that of the result in flight
  followed by the result of the later event. No pointer move changes the displayed state
  before a hit test ends.
\<close>

theorem waiting_call_superseded:
  assumes "isAbortError abortError"
    and "in_flight \<sigma> = Some running"
  shows "session_run isAbortError abortError objectIdField
           (PointerMove earlier # PointerMove later # rest) \<sigma>
         = session_run isAbortError abortError objectIdField (PointerMove later # rest) \<sigma>
       \<and> hover (session_run isAbortError abortError objectIdField
           [PointerMove earlier, PointerMove later, HitTestDone, HitTestDone] \<sigma>)
         = fst (arcgisViewPointerMove isAbortError objectIdField later
             (fst (arcgisViewPointerMove isAbortError objectIdField running (hover \<sigma>))))
       \<and> hover (step isAbortError abortError objectIdField (PointerMove move) \<tau>) = hover \<tau>"
proof -
  note one = session_run_PointerMove_twice [where isAbortError = isAbortError
      and abortError = abortError, OF assms]
  have "hover (session_run isAbortError abortError objectIdField
           [PointerMove later, HitTestDone, HitTestDone] \<sigma>)
         = fst (arcgisViewPointerMove isAbortError objectIdField later
             (fst (arcgisViewPointerMove isAbortError objectIdField running (hover \<sigma>))))"
    using assms by (simp add: settle_abort hover_settle split: option.splits)
  then have two: "hover (session_run isAbortError abortError objectIdField
           [PointerMove earlier, PointerMove later, HitTestDone, HitTestDone] \<sigma>)
         = fst (arcgisViewPointerMove isAbortError objectIdField later
             (fst (arcgisViewPointerMove isAbortError objectIdField running (hover \<sigma>))))"
    by (simp only: one)
  have three: "hover (step isAbortError abortError objectIdField (PointerMove move) \<tau>)
        = hover \<tau>"
    by (simp add: hover_settle_rejected split: option.splits)
  show ?thesis
    using one two three by blast
qed

theorem waiting_call_superseded_witness:
  "abort_by_name ''AbortError''
   \<and> in_flight (step abort_by_name ''AbortError'' ''OBJECTID''
        (PointerMove (Inr [hit_of 7 csaLayer])) session_init)
      = Some (Inr [hit_of 7 csaLayer])
   \<and> session_run abort_by_name ''AbortError'' ''OBJECTID''
        [PointerMove (Inr [hit_of 8 csaLayer]), PointerMove (Inr [hit_of 9 csaLayer]),
         HitTestDone, HitTestDone]
        (step abort_by_name ''AbortError'' ''OBJECTID''
           (PointerMove (Inr [hit_of 7 csaLayer])) session_init)
      = session_run abort_by_name ''AbortError'' ''OBJECTID''
        [PointerMove (Inr [hit_of 9 csaLayer]), HitTestDone, HitTestDone]
        (step abort_by_name ''AbortError'' ''OBJECTID''
           (PointerMove (Inr [hit_of 7 csaLayer])) session_init)
   \<and> sync_state (hover (session_run abort_by_name ''AbortError'' ''OBJECTID''
        [PointerMove (Inr [hit_of 8 csaLayer]), PointerMove (Inr [hit_of 9 csaLayer]),
         HitTestDone, HitTestDone]
        (step abort_by_name ''AbortError'' ''OBJECTID''
           (PointerMove (Inr [hit_of 7 csaLayer])) session_init)))
      = Selected (AttrNumber 9)"
proof -
  let ?\<sigma> = "step abort_by_name ''AbortError'' ''OBJECTID''
           (PointerMove (Inr [hit_of 7 csaLayer])) (session_init :: string session)"
  have h1: "abort_by_name ''AbortError''"
    by (simp add: abort_by_name_def)
  have h2: "in_flight ?\<sigma> = Some (Inr [hit_of 7 csaLayer])"
    by (simp add: session_init_def)
  note inst = waiting_call_superseded [where isAbortError = abort_by_name
        and abortError = "''AbortError''" and objectIdField = "''OBJECTID''"
        and earlier = "Inr [hit_of 8 csaLayer]" and later = "Inr [hit_of 9 csaLayer]"
        and rest = "[HitTestDone, HitTestDone]" and move = "Inr []" and \<tau> = session_init,
        OF h1 h2]
  note eq = inst [THEN conjunct1]
  note hv = inst [THEN conjunct2, THEN conjunct1]
  have sel: "sync_state (fst (arcgisViewPointerMove abort_by_name ''OBJECTID''
          (Inr [hit_of 9 csaLayer])
          (fst (arcgisViewPointerMove abort_by_name ''OBJECTID'' (Inr [hit_of 7 csaLayer])
             (hover ?\<sigma>)))))
        = Selected (AttrNumber 9)"
    by (simp add: session_init_def arcgisViewPointerMove_def debouncedGraphicUpdate_def
        graphicUpdate_def hit_of_def csaLayer_def hover_init_def id_value_def sync_state_def)
  have "sync_state (hover (session_run abort_by_name ''AbortError'' ''OBJECTID''
        [PointerMove (Inr [hit_of 8 csaLayer]), PointerMove (Inr [hit_of 9 csaLayer]),
         HitTestDone, HitTestDone] ?\<sigma>))
      = Selected (AttrNumber 9)"
    unfolding hv by (rule sel)
  then show ?thesis
    using h1 h2 eq by blast
qed

text \<open>
  C3 as stated fails for the hit test in flight. The later event comes before the hit
  test of the earlier event has ended: the later call waits, the displayed state is still
  the first one, and when the earlier hit test ends its result is acted upon, the feature
  7 in the panel and selected, while the hit test of the later event has yet to end.
\<close>

theorem in_flight_result_counterexample:
  "in_flight (session_run abort_by_name ''AbortError'' ''OBJECTID''
      [PointerMove (Inr [hit_of 7 csaLayer]), PointerMove (Inr [])] session_init)
     = Some (Inr [hit_of 7 csaLayer])
   \<and> waiting (session_run abort_by_name ''AbortError'' ''OBJECTID''
      [PointerMove (Inr [hit_of 7 csaLayer]), PointerMove (Inr [])] session_init)
     = Some (Inr [])
   \<and> hover (session_run abort_by_name ''AbortError'' ''OBJECTID''
      [PointerMove (Inr [hit_of 7 csaLayer]), PointerMove (Inr [])] session_init)
     = hover_init
   \<and> in_flight (session_run abort_by_name ''AbortError'' ''OBJECTID''
      [PointerMove (Inr [hit_of 7 csaLayer]), PointerMove (Inr []), HitTestDone] session_init)
     = Some (Inr [])
   \<and> feature_graphic (hover (session_run abort_by_name ''AbortError'' ''OBJECTID''
      [PointerMove (Inr [hit_of 7 csaLayer]), PointerMove (Inr []), HitTestDone] session_init))
     = HitGraphic (graphic (hit_of 7 csaLayer))
   \<and> sync_state (hover (session_run abort_by_name ''AbortError'' ''OBJECTID''
      [PointerMove (Inr [hit_of 7 csaLayer]), PointerMove (Inr []), HitTestDone] session_init))
     = Selected (AttrNumber 7)"
  by (simp add: session_init_def settle_def arcgisViewPointerMove_def
      debouncedGraphicUpdate_def graphicUpdate_def hit_of_def csaLayer_def hover_init_def
      id_value_def sync_state_def highlight_remove_def)


end
